theory Spec2Isabelle
  imports Main "HOL-Library.Sublist"
begin

section \<open>Site attendance dashboard (src/src/App.jsx)\<close>

text \<open>
  The application keeps three pieces of data: the worker roster (an array of
  \<^verbatim>\<open>{ id, name, trade }\<close> objects), the logged-in supervisor and the attendance
  table, a plain JavaScript object keyed by ISO date whose values are plain objects keyed by
  worker id holding the status code (\<^verbatim>\<open>"P"\<close> or \<^verbatim>\<open>"A"\<close>).
\<close>

subsection \<open>Data model\<close>

record worker =
  w_id :: string
  w_name :: string
  w_trade :: string

record supervisor =
  s_id :: string
  s_name :: string

text \<open>
  The own (enumerable, writable) properties of one day's object: worker id to status code.
\<close>

type_synonym dayRecords = "string \<rightharpoonup> string"

text \<open>
  The attendance table. Its keys are only ever read and written with date strings: the
  ten-character prefix of an ISO timestamp (\<^verbatim>\<open>getToday\<close>, \<^verbatim>\<open>dateOffset\<close>) or the value of
  the date input (empty or \<^verbatim>\<open>yyyy-mm-dd\<close>). No member of \<^verbatim>\<open>Object.prototype\<close> has such a
  name, so at this level a property read is a read of the own property, and an assignment
  creates or overwrites the own property.
\<close>

type_synonym attendance = "string \<rightharpoonup> dayRecords"

subsection \<open>Property access on a day object\<close>

text \<open>
  Worker ids are arbitrary strings (the roster is read from storage), and a day object is
  an ordinary object whose prototype is \<^verbatim>\<open>Object.prototype\<close>. The expression
  \<^verbatim>\<open>m[w.id]\<close> therefore yields the own property when there is one, otherwise the
  member of \<^verbatim>\<open>Object.prototype\<close> of that name when there is one, otherwise
  \<^verbatim>\<open>undefined\<close>.
\<close>

datatype jsval =
    Undefined
  | Str string
  | Inherited string

text \<open>
  The property names of \<^verbatim>\<open>Object.prototype\<close> (ECMAScript, with the Annex B members every
  browser has). All of them are functions except \<^verbatim>\<open>__proto__\<close>, an accessor whose getter
  returns the prototype object itself.
\<close>

definition objectPrototypeKeys :: "string list" where
  "objectPrototypeKeys =
     [''constructor'', ''hasOwnProperty'', ''isPrototypeOf'', ''propertyIsEnumerable'',
      ''toLocaleString'', ''toString'', ''valueOf'', ''__proto__'',
      ''__defineGetter__'', ''__defineSetter__'', ''__lookupGetter__'', ''__lookupSetter__'']"

text \<open>\<^verbatim>\<open>m[k]\<close> on a day object.\<close>

definition getProp :: "dayRecords \<Rightarrow> string \<Rightarrow> jsval" where
  "getProp m k =
     (case m k of
        Some s \<Rightarrow> Str s
      | None \<Rightarrow> if k \<in> set objectPrototypeKeys then Inherited k else Undefined)"

text \<open>
  Truthiness as the conditional operator tests it: \<^verbatim>\<open>undefined\<close> and the empty string
  are falsy, every other string, every function and every object is truthy.
\<close>

fun truthy :: "jsval \<Rightarrow> bool" where
  "truthy Undefined = False"
| "truthy (Str s) = (s \<noteq> [])"
| "truthy (Inherited k) = True"

text \<open>
  The assignment \<^verbatim>\<open>day[k] = status\<close> with a string on the right. It overwrites an own
  property, and otherwise creates one, except for the key \<^verbatim>\<open>__proto__\<close>: without an own
  property of that name the assignment reaches the inherited setter, which ignores a value
  that is neither an object nor \<^verbatim>\<open>null\<close>.
\<close>

definition setProp :: "dayRecords \<Rightarrow> string \<Rightarrow> string \<Rightarrow> dayRecords" where
  "setProp m k v = (if k = ''__proto__'' \<and> m k = None then m else m(k \<mapsto> v))"

subsection \<open>The host's Date object\<close>

text \<open>
  \<^verbatim>\<open>Date\<close> belongs to the host. The model takes its four operations used by
  \<^verbatim>\<open>dateOffset\<close> as parameters: the current instant, the local day of the month, its
  calendar-aware setter and the UTC ISO rendering. The clock reads of one evaluation of
  \<^verbatim>\<open>computeAutoAbsent\<close> are taken at the same instant.
\<close>

record 'dt hostDate =
  newDate :: 'dt
  getDate :: "'dt \<Rightarrow> int"
  setDate :: "'dt \<Rightarrow> int \<Rightarrow> 'dt"
  toISOString :: "'dt \<Rightarrow> string"

text \<open>
  \<^verbatim>\<open>
  function dateOffset(delta) {
    const dt = new Date();
    dt.setDate(dt.getDate() + delta);
    return dt.toISOString().slice(0, 10);
  }
  \<close>
\<close>

definition dateOffset :: "'dt hostDate \<Rightarrow> int \<Rightarrow> string" where
  "dateOffset H delta =
     (let dt = newDate H;
          dt = setDate H dt (getDate H dt + delta)
      in take 10 (toISOString H dt))"

subsection \<open>The absence rule\<close>

text \<open>
  \<^verbatim>\<open>
  function computeAutoAbsent(attendance, workers) {
    // Check last 3 calendar days (today-1, today-2, today-3). Missing record = Absent.
    const days = [1, 2, 3].map((d) => dateOffset(-d));
    const dayMaps = days.map((d) => attendance[d] || {});
    const flagged = [];
    for (const w of workers) {
      const allAbsent = dayMaps.every((m) => (m[w.id] ? m[w.id] === "A" : true));
      if (allAbsent) flagged.push(w);
    }
    return flagged;
  }
  \<close>
\<close>

definition orEmpty :: "dayRecords option \<Rightarrow> dayRecords" where
  "orEmpty r = (case r of Some m \<Rightarrow> m | None \<Rightarrow> Map.empty)"

definition absentOn :: "string \<Rightarrow> dayRecords \<Rightarrow> bool" where
  "absentOn k m = (if truthy (getProp m k) then getProp m k = Str ''A'' else True)"

definition allAbsent :: "dayRecords list \<Rightarrow> worker \<Rightarrow> bool" where
  "allAbsent dayMaps w = list_all (absentOn (w_id w)) dayMaps"

fun flagLoop :: "dayRecords list \<Rightarrow> worker list \<Rightarrow> worker list \<Rightarrow> worker list" where
  "flagLoop dayMaps [] flagged = flagged"
| "flagLoop dayMaps (w # ws) flagged =
     flagLoop dayMaps ws (if allAbsent dayMaps w then flagged @ [w] else flagged)"

definition computeAutoAbsent :: "'dt hostDate \<Rightarrow> attendance \<Rightarrow> worker list \<Rightarrow> worker list" where
  "computeAutoAbsent H att ws =
     (let days = map (\<lambda>d. dateOffset H (- d)) [1, 2, 3];
          dayMaps = map (\<lambda>d. orEmpty (att d)) days
      in flagLoop dayMaps ws [])"

subsection \<open>Marking attendance\<close>

text \<open>\<^verbatim>\<open>const todayRecords = attendance[date] || {};\<close>\<close>

definition todayRecords :: "attendance \<Rightarrow> string \<Rightarrow> dayRecords" where
  "todayRecords att date = orEmpty (att date)"

text \<open>
  The updater that \<^verbatim>\<open>handleMark\<close> passes to \<^verbatim>\<open>setAttendance\<close>. The spread copies the
  own properties, and a computed key in an object literal always defines an own property.
  \<^verbatim>\<open>
  (prev) => {
    const copy = { ...prev };
    copy[date] = { ...(copy[date] || {}), [w.id]: status };
    return copy;
  }
  \<close>
\<close>

definition handleMark_update :: "string \<Rightarrow> worker \<Rightarrow> string \<Rightarrow> attendance \<Rightarrow> attendance" where
  "handleMark_update date w status prev =
     (let copy = prev;
          copy = copy(date \<mapsto> (orEmpty (copy date))(w_id w \<mapsto> status))
      in copy)"

text \<open>\<^verbatim>\<open>workers.forEach((w) => (day[w.id] = status));\<close>\<close>

fun forEachAssign :: "worker list \<Rightarrow> string \<Rightarrow> dayRecords \<Rightarrow> dayRecords" where
  "forEachAssign [] status day = day"
| "forEachAssign (w # ws) status day = forEachAssign ws status (setProp day (w_id w) status)"

text \<open>
  The updater of \<^verbatim>\<open>handleBulk\<close>:
  \<^verbatim>\<open>
  (prev) => {
    const copy = { ...prev };
    const day = { ...(copy[date] || {}) };
    workers.forEach((w) => (day[w.id] = status));
    copy[date] = day;
    return copy;
  }
  \<close>
\<close>

definition handleBulk_update :: "string \<Rightarrow> worker list \<Rightarrow> string \<Rightarrow> attendance \<Rightarrow> attendance" where
  "handleBulk_update date ws status prev =
     (let copy = prev;
          day = orEmpty (copy date);
          day = forEachAssign ws status day;
          copy = copy(date \<mapsto> day)
      in copy)"

subsection \<open>Session state\<close>

text \<open>
  The four state variables of \<^verbatim>\<open>App\<close>. A logged-out session has \<^verbatim>\<open>supervisor === null\<close>.
  The toast notifications the handlers raise do not touch this state and are left out.
\<close>

record appState =
  supervisor :: "supervisor option"
  workers :: "worker list"
  attendance :: attendance
  date :: string

definition handleMark :: "worker \<Rightarrow> string \<Rightarrow> appState \<Rightarrow> appState" where
  "handleMark w status st =
     st\<lparr>attendance := handleMark_update (date st) w status (attendance st)\<rparr>"

definition handleBulk :: "string \<Rightarrow> appState \<Rightarrow> appState" where
  "handleBulk status st =
     st\<lparr>attendance := handleBulk_update (date st) (workers st) status (attendance st)\<rparr>"

definition logout :: "appState \<Rightarrow> appState" where
  "logout st = st\<lparr>supervisor := None\<rparr>"

text \<open>
  \<^verbatim>\<open>const autoAbsentList = useMemo(() => computeAutoAbsent(attendance, workers), ...);\<close>
\<close>

definition autoAbsentList :: "'dt hostDate \<Rightarrow> appState \<Rightarrow> worker list" where
  "autoAbsentList H st = computeAutoAbsent H (attendance st) (workers st)"

subsection \<open>Loading from local storage\<close>

text \<open>
  \<^verbatim>\<open>localStorage.getItem\<close> and \<^verbatim>\<open>JSON.parse\<close> belong to the host and may throw; the
  model takes them as parameters whose results are either an exception or a value.
  \<^verbatim>\<open>getItem\<close> yields \<^verbatim>\<open>null\<close> (here \<open>None\<close>) for a key that is not stored. A
  record that parses is returned as it is. The \<^verbatim>\<open>catch\<close> clause has no binding and
  catches every exception.
\<close>

datatype exn = SecurityError | SyntaxError | OtherError string

record 'a hostStorage =
  getItem :: "string \<Rightarrow> exn + string option"
  jsonParse :: "string \<Rightarrow> exn + 'a"

text \<open>
  The body of the \<^verbatim>\<open>try\<close> block:
  \<^verbatim>\<open>
  const raw = localStorage.getItem(key);
  return raw ? JSON.parse(raw) : fallback;
  \<close>
  \<^verbatim>\<open>null\<close> and the empty string are falsy.
\<close>

definition loadLS_try :: "'a hostStorage \<Rightarrow> string \<Rightarrow> 'a \<Rightarrow> exn + 'a" where
  "loadLS_try S key fallback =
     (case getItem S key of
        Inl e \<Rightarrow> Inl e
      | Inr raw \<Rightarrow>
          (case raw of
             None \<Rightarrow> Inr fallback
           | Some r \<Rightarrow> if r \<noteq> [] then jsonParse S r else Inr fallback))"

text \<open>
  \<^verbatim>\<open>
  function loadLS(key, fallback) {
    try { ... } catch { return fallback; }
  }
  \<close>
\<close>

definition loadLS :: "'a hostStorage \<Rightarrow> string \<Rightarrow> 'a \<Rightarrow> exn + 'a" where
  "loadLS S key fallback =
     (case loadLS_try S key fallback of
        Inl e \<Rightarrow> Inr fallback
      | Inr v \<Rightarrow> Inr v)"

text \<open>The seed roster and the three storage keys.\<close>

definition DEFAULT_WORKERS :: "worker list" where
  "DEFAULT_WORKERS =
     [\<lparr>w_id = ''W-101'', w_name = ''Abdul Karim'', w_trade = ''Mason''\<rparr>,
      \<lparr>w_id = ''W-102'', w_name = ''Shahin Mia'', w_trade = ''Electrician''\<rparr>,
      \<lparr>w_id = ''W-103'', w_name = ''Rasel Ahmed'', w_trade = ''Carpenter''\<rparr>,
      \<lparr>w_id = ''W-104'', w_name = ''Mizanur Rahman'', w_trade = ''Plumber''\<rparr>,
      \<lparr>w_id = ''W-105'', w_name = ''Sumon Hossain'', w_trade = ''Helper''\<rparr>]"

definition LS_attendance :: string where
  "LS_attendance = ''ct_attendance_demo__records''"

definition LS_workers :: string where
  "LS_workers = ''ct_attendance_demo__workers''"

definition LS_supervisor :: string where
  "LS_supervisor = ''ct_attendance_demo__supervisor''"

subsection \<open>A host for concrete runs\<close>

text \<open>
  A clock that stands on 5 November 2026, 09:00 UTC, in a zone without offset: a date is
  its day of the month.
\<close>

definition sampleHost :: "int hostDate" where
  "sampleHost =
     \<lparr>newDate = 5,
      getDate = (\<lambda>dt. dt),
      setDate = (\<lambda>dt n. n),
      toISOString = (\<lambda>dt.
        if dt = 5 then ''2026-11-05T09:00:00.000Z''
        else if dt = 4 then ''2026-11-04T09:00:00.000Z''
        else if dt = 3 then ''2026-11-03T09:00:00.000Z''
        else if dt = 2 then ''2026-11-02T09:00:00.000Z''
        else ''2026-11-01T09:00:00.000Z'')\<rparr>"

subsection \<open>Sample data\<close>

definition sampleAttendance :: attendance where
  "sampleAttendance =
     [''2026-11-04'' \<mapsto> [''W-101'' \<mapsto> ''P'', ''W-102'' \<mapsto> ''A''],
      ''2026-11-03'' \<mapsto> [''W-102'' \<mapsto> ''A''],
      ''2026-10-01'' \<mapsto> [''W-103'' \<mapsto> ''P'', ''X-9'' \<mapsto> ''A'']]"

definition sampleState :: appState where
  "sampleState =
     \<lparr>supervisor = Some \<lparr>s_id = ''S-1'', s_name = ''Site Supervisor A''\<rparr>,
      workers = DEFAULT_WORKERS,
      attendance = sampleAttendance,
      date = ''2026-11-04''\<rparr>"

definition sampleStorage :: "worker list hostStorage" where
  "sampleStorage =
     \<lparr>getItem = (\<lambda>k. if k = LS_workers then Inr (Some ''[{oops'')
                       else if k = LS_supervisor then Inl SecurityError
                       else Inr None),
      jsonParse = (\<lambda>r. Inl SyntaxError)\<rparr>"

section \<open>Properties of the model\<close>

lemma sampleHost_days:
  "dateOffset sampleHost (- 1) = ''2026-11-04''"
  "dateOffset sampleHost (- 2) = ''2026-11-03''"
  "dateOffset sampleHost (- 3) = ''2026-11-02''"
  by (simp_all add: dateOffset_def sampleHost_def)

subsection \<open>The loop as a filter\<close>

lemma flagLoop_filter: "flagLoop dayMaps ws acc = acc @ filter (allAbsent dayMaps) ws"
  by (induction ws arbitrary: acc) simp_all

lemma computeAutoAbsent_filter:
  "computeAutoAbsent H att ws =
     filter (allAbsent (map (\<lambda>d. orEmpty (att (dateOffset H (- d)))) [1, 2, 3])) ws"
  by (simp add: computeAutoAbsent_def flagLoop_filter Let_def)

lemma allAbsent_three:
  "allAbsent [orEmpty (att d1), orEmpty (att d2), orEmpty (att d3)] w \<longleftrightarrow>
     absentOn (w_id w) (todayRecords att d1)
   \<and> absentOn (w_id w) (todayRecords att d2)
   \<and> absentOn (w_id w) (todayRecords att d3)"
  by (simp add: allAbsent_def todayRecords_def)

text \<open>The rule keeps the roster workers that count as absent on each of the three days.\<close>

lemma computeAutoAbsent_three:
  "computeAutoAbsent H att ws =
     filter (\<lambda>w. absentOn (w_id w) (todayRecords att (dateOffset H (- 1)))
                \<and> absentOn (w_id w) (todayRecords att (dateOffset H (- 2)))
                \<and> absentOn (w_id w) (todayRecords att (dateOffset H (- 3)))) ws"
  unfolding computeAutoAbsent_filter
  by (rule filter_cong) (simp_all add: allAbsent_three)

subsection \<open>Reading a day object\<close>

lemma getProp_own: "m k = Some s \<Longrightarrow> getProp m k = Str s"
  by (simp add: getProp_def)

lemma getProp_plain_key:
  "k \<notin> set objectPrototypeKeys \<Longrightarrow> getProp m k = (case m k of Some s \<Rightarrow> Str s | None \<Rightarrow> Undefined)"
  by (simp add: getProp_def split: option.splits)

lemma getProp_inherited:
  "k \<in> set objectPrototypeKeys \<Longrightarrow> m k = None \<Longrightarrow> getProp m k = Inherited k"
  by (simp add: getProp_def)

text \<open>
  For a worker id that names no member of \<^verbatim>\<open>Object.prototype\<close>, a day counts as absent
  exactly when the worker has no own entry, or an empty one, or the entry \<^verbatim>\<open>"A"\<close>.
\<close>

lemma absentOn_plain_key:
  "k \<notin> set objectPrototypeKeys \<Longrightarrow>
     absentOn k m \<longleftrightarrow> (m k = None \<or> m k = Some [] \<or> m k = Some ''A'')"
  by (auto simp: absentOn_def getProp_plain_key split: option.splits)

text \<open>
  For a worker id that does name one, a day without an own entry never counts as absent: the
  inherited member is truthy and is not the string \<^verbatim>\<open>"A"\<close>.
\<close>

lemma absentOn_inherited:
  "k \<in> set objectPrototypeKeys \<Longrightarrow> m k = None \<Longrightarrow> \<not> absentOn k m"
  by (simp add: absentOn_def getProp_inherited)

subsection \<open>Bulk assignment\<close>

lemma setProp_other: "k \<noteq> j \<Longrightarrow> setProp m j v k = m k"
  by (simp add: setProp_def)

lemma setProp_same:
  "j \<noteq> ''__proto__'' \<or> m j \<noteq> None \<Longrightarrow> setProp m j v j = Some v"
  by (auto simp: setProp_def)

lemma setProp_keeps_value: "m k = Some v \<Longrightarrow> setProp m j v k = Some v"
  by (simp add: setProp_def)

lemma forEachAssign_other:
  "k \<notin> w_id ` set ws \<Longrightarrow> forEachAssign ws status day k = day k"
  by (induction ws arbitrary: day) (simp_all add: setProp_other)

lemma forEachAssign_keeps_value:
  "day k = Some status \<Longrightarrow> forEachAssign ws status day k = Some status"
  by (induction ws arbitrary: day) (simp_all add: setProp_keeps_value)

lemma forEachAssign_member:
  "w \<in> set ws \<Longrightarrow> w_id w \<noteq> ''__proto__'' \<Longrightarrow>
     forEachAssign ws status day (w_id w) = Some status"
proof (induction ws arbitrary: day)
  case Nil
  then show ?case by simp
next
  case (Cons x xs)
  show ?case
  proof (cases "w_id x = w_id w")
    case True
    with Cons.prems have "setProp day (w_id x) status (w_id w) = Some status"
      by (simp add: setProp_same)
    then show ?thesis by (simp add: forEachAssign_keeps_value)
  next
    case False
    with Cons.prems have "w \<in> set xs" by auto
    with Cons.IH Cons.prems show ?thesis by simp
  qed
qed

text \<open>
  What \<^verbatim>\<open>handleBulk\<close> does for the roster workers whose id is not \<^verbatim>\<open>__proto__\<close>, and
  for the other dates.
\<close>

lemma handleBulk_sets_roster:
  "w \<in> set (workers st) \<Longrightarrow> w_id w \<noteq> ''__proto__'' \<Longrightarrow>
     getProp (todayRecords (attendance (handleBulk status st)) (date st)) (w_id w) = Str status"
  by (simp add: handleBulk_def handleBulk_update_def Let_def todayRecords_def orEmpty_def
      forEachAssign_member getProp_own)

lemma handleBulk_other_dates:
  "d \<noteq> date st \<Longrightarrow> attendance (handleBulk status st) d = attendance st d"
  by (simp add: handleBulk_def handleBulk_update_def Let_def)

subsection \<open>The absence rule on ordinary worker ids\<close>

text \<open>
  For a worker whose id names no member of \<^verbatim>\<open>Object.prototype\<close> and whose entries on
  the three days are \<^verbatim>\<open>"P"\<close> or \<^verbatim>\<open>"A"\<close> where they exist, the rule flags the worker
  exactly when each of the three days has the entry \<^verbatim>\<open>"A"\<close> or none.
\<close>

lemma flagged_iff_plain_key:
  assumes "w_id w \<notin> set objectPrototypeKeys"
      and "\<forall>d \<in> {1, 2, 3}. todayRecords att (dateOffset H (- d)) (w_id w) \<in> {None, Some ''P'', Some ''A''}"
  shows "w \<in> set (computeAutoAbsent H att ws) \<longleftrightarrow>
           w \<in> set ws \<and> (\<forall>d \<in> {1, 2, 3}.
             todayRecords att (dateOffset H (- d)) (w_id w) \<in> {None, Some ''A''})"
  using assms
  by (auto simp: computeAutoAbsent_three absentOn_plain_key)

lemma computeAutoAbsent_empty_roster: "computeAutoAbsent H att [] = []"
  by (simp add: computeAutoAbsent_filter)

lemma computeAutoAbsent_empty_table_plain_keys:
  "\<forall>w \<in> set ws. w_id w \<notin> set objectPrototypeKeys \<Longrightarrow> computeAutoAbsent H Map.empty ws = ws"
  by (simp add: computeAutoAbsent_three absentOn_plain_key todayRecords_def orEmpty_def)

section \<open>The claims\<close>

text \<open>
  C1. The claim: for every roster and every table whose statuses are \<^verbatim>\<open>"P"\<close> or
  \<^verbatim>\<open>"A"\<close>, a worker is flagged exactly when each of the three preceding days has the
  entry \<^verbatim>\<open>"A"\<close> or no entry for that worker. Here a worker whose id is \<^verbatim>\<open>toString\<close>
  has the entry \<^verbatim>\<open>"A"\<close> on two of the three days and no entry on the third, and is
  not flagged: on the third day \<^verbatim>\<open>m[w.id]\<close> is the function inherited from
  \<^verbatim>\<open>Object.prototype\<close>, which is truthy and is not \<^verbatim>\<open>"A"\<close>. For ids that name no such
  member the claim holds (\<open>flagged_iff_plain_key\<close>).
\<close>

theorem computeAutoAbsent_misses_prototype_named_id:
  "todayRecords [''2026-11-04'' \<mapsto> [''toString'' \<mapsto> ''A''], ''2026-11-03'' \<mapsto> [''toString'' \<mapsto> ''A'']]
     (dateOffset sampleHost (- 1)) ''toString'' = Some ''A''
   \<and> todayRecords [''2026-11-04'' \<mapsto> [''toString'' \<mapsto> ''A''], ''2026-11-03'' \<mapsto> [''toString'' \<mapsto> ''A'']]
     (dateOffset sampleHost (- 2)) ''toString'' = Some ''A''
   \<and> todayRecords [''2026-11-04'' \<mapsto> [''toString'' \<mapsto> ''A''], ''2026-11-03'' \<mapsto> [''toString'' \<mapsto> ''A'']]
     (dateOffset sampleHost (- 3)) ''toString'' = None
   \<and> computeAutoAbsent sampleHost
       [''2026-11-04'' \<mapsto> [''toString'' \<mapsto> ''A''], ''2026-11-03'' \<mapsto> [''toString'' \<mapsto> ''A'']]
       [\<lparr>w_id = ''toString'', w_name = ''Tariq Islam'', w_trade = ''Welder''\<rparr>] = []"
  by (simp add: computeAutoAbsent_three sampleHost_days todayRecords_def orEmpty_def
      absentOn_def getProp_def objectPrototypeKeys_def)

text \<open>
  C2. For every roster and every attendance table, the list the absence rule returns is
  a subsequence of the roster (the same workers in the same relative order, none added),
  hence a subset of it, and when the roster's worker ids are unique the result has no
  duplicates.
\<close>

theorem computeAutoAbsent_sublist:
  "subseq (computeAutoAbsent H att ws) ws
   \<and> set (computeAutoAbsent H att ws) \<subseteq> set ws
   \<and> (distinct (map w_id ws) \<longrightarrow>
        distinct (map w_id (computeAutoAbsent H att ws)) \<and> distinct (computeAutoAbsent H att ws))"
proof -
  let ?r = "computeAutoAbsent H att ws"
  have r: "?r = filter (allAbsent (map (\<lambda>d. orEmpty (att (dateOffset H (- d)))) [1, 2, 3])) ws"
    by (rule computeAutoAbsent_filter)
  have "subseq ?r ws" unfolding r by (rule subseq_filter_left)
  moreover have "set ?r \<subseteq> set ws" unfolding r by (rule filter_is_subset)
  moreover have "distinct (map w_id ?r)" if "distinct (map w_id ws)"
    unfolding r using that by (rule distinct_map_filter)
  moreover have "distinct ?r" if "distinct (map w_id ws)"
    unfolding r using that by (simp add: distinct_map)
  ultimately show ?thesis by blast
qed

theorem computeAutoAbsent_sublist_witness:
  "distinct (map w_id DEFAULT_WORKERS)
   \<and> subseq (computeAutoAbsent sampleHost sampleAttendance DEFAULT_WORKERS) DEFAULT_WORKERS
   \<and> distinct (map w_id (computeAutoAbsent sampleHost sampleAttendance DEFAULT_WORKERS))"
proof -
  have d: "distinct (map w_id DEFAULT_WORKERS)"
    by (simp add: DEFAULT_WORKERS_def)
  from computeAutoAbsent_sublist [of sampleHost sampleAttendance DEFAULT_WORKERS] d
  show ?thesis by blast
qed

text \<open>
  C3. The claim: on a table with no entries at all the rule returns every worker of the
  roster. Here the table is empty and the roster is the seed roster followed by a worker
  whose id is \<^verbatim>\<open>constructor\<close>: the rule returns the seed roster only. The rest of the
  claim holds: the rule is a total function, it returns the empty list on an empty roster
  (\<open>computeAutoAbsent_empty_roster\<close>), and on an empty table it returns every worker
  whose id names no member of \<^verbatim>\<open>Object.prototype\<close>
  (\<open>computeAutoAbsent_empty_table_plain_keys\<close>).
\<close>

theorem computeAutoAbsent_empty_table_drops_prototype_named_id:
  "computeAutoAbsent H Map.empty
     (DEFAULT_WORKERS @ [\<lparr>w_id = ''constructor'', w_name = ''Kamal Uddin'', w_trade = ''Welder''\<rparr>])
     = DEFAULT_WORKERS"
  by (simp add: computeAutoAbsent_three DEFAULT_WORKERS_def todayRecords_def orEmpty_def
      absentOn_def getProp_def objectPrototypeKeys_def)

text \<open>
  C4. For every roster and any two attendance tables whose entries agree on the three
  dates \<^verbatim>\<open>dateOffset(-1)\<close>, \<^verbatim>\<open>dateOffset(-2)\<close> and \<^verbatim>\<open>dateOffset(-3)\<close>, the absence rule
  returns the same list; the list shown by the application is the same whatever the selected
  edit date and the logged-in supervisor are.
\<close>

theorem autoAbsent_reads_three_days_only:
  assumes "att (dateOffset H (- 1)) = att' (dateOffset H (- 1))"
      and "att (dateOffset H (- 2)) = att' (dateOffset H (- 2))"
      and "att (dateOffset H (- 3)) = att' (dateOffset H (- 3))"
  shows "computeAutoAbsent H att ws = computeAutoAbsent H att' ws
       \<and> autoAbsentList H \<lparr>supervisor = sv, workers = ws, attendance = att, date = d\<rparr>
         = autoAbsentList H \<lparr>supervisor = sv', workers = ws, attendance = att', date = d'\<rparr>"
  using assms by (simp add: autoAbsentList_def computeAutoAbsent_three todayRecords_def)

theorem autoAbsent_reads_three_days_only_witness:
  "sampleAttendance (dateOffset sampleHost (- 1))
     = (sampleAttendance(''2026-11-05'' \<mapsto> [''W-102'' \<mapsto> ''P''])) (dateOffset sampleHost (- 1))
   \<and> sampleAttendance (dateOffset sampleHost (- 2))
     = (sampleAttendance(''2026-11-05'' \<mapsto> [''W-102'' \<mapsto> ''P''])) (dateOffset sampleHost (- 2))
   \<and> sampleAttendance (dateOffset sampleHost (- 3))
     = (sampleAttendance(''2026-11-05'' \<mapsto> [''W-102'' \<mapsto> ''P''])) (dateOffset sampleHost (- 3))
   \<and> computeAutoAbsent sampleHost sampleAttendance DEFAULT_WORKERS
     = computeAutoAbsent sampleHost
         (sampleAttendance(''2026-11-05'' \<mapsto> [''W-102'' \<mapsto> ''P''])) DEFAULT_WORKERS"
proof -
  let ?att' = "sampleAttendance(''2026-11-05'' \<mapsto> [''W-102'' \<mapsto> ''P''])"
  have h1: "sampleAttendance (dateOffset sampleHost (- 1)) = ?att' (dateOffset sampleHost (- 1))"
    by (simp add: sampleHost_days)
  have h2: "sampleAttendance (dateOffset sampleHost (- 2)) = ?att' (dateOffset sampleHost (- 2))"
    by (simp add: sampleHost_days)
  have h3: "sampleAttendance (dateOffset sampleHost (- 3)) = ?att' (dateOffset sampleHost (- 3))"
    by (simp add: sampleHost_days)
  from autoAbsent_reads_three_days_only [OF h1 h2 h3, of DEFAULT_WORKERS] h1 h2 h3
  show ?thesis by blast
qed

text \<open>
  C5. The claim: after \<^verbatim>\<open>handleBulk(status)\<close> every roster worker reads as
  \<^verbatim>\<open>status\<close> on the selected date, and the other dates are unchanged. Here the roster
  holds a worker whose id is \<^verbatim>\<open>__proto__\<close> and the table is empty: the assignment
  \<^verbatim>\<open>day[w.id] = status\<close> reaches the inherited setter and stores nothing, so the day
  object has no entry for the worker and reading it gives the prototype object. For the
  other roster workers, and for the other dates, the claim holds
  (\<open>handleBulk_sets_roster\<close>, \<open>handleBulk_other_dates\<close>).
\<close>

theorem handleBulk_skips_proto_id:
  "todayRecords
     (attendance (handleBulk ''P''
        \<lparr>supervisor = None,
         workers = [\<lparr>w_id = ''__proto__'', w_name = ''Jamal Khan'', w_trade = ''Painter''\<rparr>],
         attendance = Map.empty, date = ''2026-11-05''\<rparr>))
     ''2026-11-05'' ''__proto__'' = None
   \<and> getProp (todayRecords
       (attendance (handleBulk ''P''
          \<lparr>supervisor = None,
           workers = [\<lparr>w_id = ''__proto__'', w_name = ''Jamal Khan'', w_trade = ''Painter''\<rparr>],
           attendance = Map.empty, date = ''2026-11-05''\<rparr>))
       ''2026-11-05'') ''__proto__'' = Inherited ''__proto__''"
  by (simp add: handleBulk_def handleBulk_update_def Let_def todayRecords_def orEmpty_def
      setProp_def getProp_def objectPrototypeKeys_def)

text \<open>
  C6. For every session state, worker and status, \<^verbatim>\<open>handleMark\<close> sets exactly that
  worker's status for the selected date: reading the worker's entry for that date then gives
  the status, the entry of every other worker id on that date is what it was, the entry of
  every other date is what it was, and roster, supervisor and selected date do not change.
\<close>

theorem handleMark_sets_one_entry:
  "getProp (todayRecords (attendance (handleMark w status st)) (date st)) (w_id w) = Str status
   \<and> todayRecords (attendance (handleMark w status st)) (date st) (w_id w) = Some status
   \<and> (\<forall>k. k \<noteq> w_id w \<longrightarrow>
          todayRecords (attendance (handleMark w status st)) (date st) k
            = todayRecords (attendance st) (date st) k)
   \<and> (\<forall>d. d \<noteq> date st \<longrightarrow> attendance (handleMark w status st) d = attendance st d)
   \<and> workers (handleMark w status st) = workers st
   \<and> supervisor (handleMark w status st) = supervisor st
   \<and> date (handleMark w status st) = date st"
  by (simp add: handleMark_def handleMark_update_def Let_def todayRecords_def orEmpty_def
      getProp_own)

theorem handleMark_sets_one_entry_witness:
  "''W-102'' \<noteq> w_id (hd DEFAULT_WORKERS)
   \<and> todayRecords (attendance (handleMark (hd DEFAULT_WORKERS) ''A'' sampleState))
        (date sampleState) ''W-102''
       = todayRecords (attendance sampleState) (date sampleState) ''W-102''
   \<and> ''2026-11-03'' \<noteq> date sampleState
   \<and> attendance (handleMark (hd DEFAULT_WORKERS) ''A'' sampleState) ''2026-11-03''
       = attendance sampleState ''2026-11-03''
   \<and> todayRecords (attendance (handleMark (hd DEFAULT_WORKERS) ''A'' sampleState))
        (date sampleState) (w_id (hd DEFAULT_WORKERS)) = Some ''A''"
proof -
  have k: "''W-102'' \<noteq> w_id (hd DEFAULT_WORKERS)"
    by (simp add: DEFAULT_WORKERS_def)
  have d: "''2026-11-03'' \<noteq> date sampleState"
    by (simp add: sampleState_def)
  from handleMark_sets_one_entry [of "hd DEFAULT_WORKERS" "''A''" sampleState] k d
  show ?thesis by blast
qed

text \<open>
  C7. Marking the same worker for the same date as \<^verbatim>\<open>"P"\<close> and then as \<^verbatim>\<open>"A"\<close>
  leaves the status \<^verbatim>\<open>"A"\<close>, and the resulting state is the one that the second mark alone
  produces: nothing of the first mark is kept.
\<close>

theorem handleMark_last_write_wins:
  "getProp (todayRecords (attendance (handleMark w ''A'' (handleMark w ''P'' st))) (date st))
     (w_id w) = Str ''A''
   \<and> handleMark w ''A'' (handleMark w ''P'' st) = handleMark w ''A'' st"
  by (simp add: handleMark_def handleMark_update_def Let_def todayRecords_def orEmpty_def
      getProp_own)

text \<open>
  C8. For every session state, \<^verbatim>\<open>logout\<close> sets the supervisor to the logged-out value and
  leaves the attendance table, the roster and the selected date as they were.
\<close>

theorem logout_clears_supervisor_only:
  "supervisor (logout st) = None
   \<and> attendance (logout st) = attendance st
   \<and> workers (logout st) = workers st
   \<and> date (logout st) = date st"
  by (simp add: logout_def)

text \<open>
  C9. For every key and fallback, \<^verbatim>\<open>loadLS\<close> returns a value and never an exception;
  when the stored record is absent, or empty, or \<^verbatim>\<open>JSON.parse\<close> throws on it, or reading
  the storage throws, the value returned is the fallback.
\<close>

theorem loadLS_never_raises:
  "(\<exists>v. loadLS S key fallback = Inr v)
   \<and> (getItem S key = Inr None \<longrightarrow> loadLS S key fallback = Inr fallback)
   \<and> (getItem S key = Inr (Some []) \<longrightarrow> loadLS S key fallback = Inr fallback)
   \<and> (\<forall>r e. getItem S key = Inr (Some r) \<and> jsonParse S r = Inl e \<longrightarrow>
          loadLS S key fallback = Inr fallback)
   \<and> (\<forall>e. getItem S key = Inl e \<longrightarrow> loadLS S key fallback = Inr fallback)"
  by (auto simp: loadLS_def loadLS_try_def split: sum.splits option.splits)

theorem loadLS_never_raises_witness:
  "getItem sampleStorage LS_workers = Inr (Some ''[{oops'')
   \<and> jsonParse sampleStorage ''[{oops'' = Inl SyntaxError
   \<and> loadLS sampleStorage LS_workers DEFAULT_WORKERS = Inr DEFAULT_WORKERS
   \<and> getItem sampleStorage LS_attendance = Inr None
   \<and> loadLS sampleStorage LS_attendance DEFAULT_WORKERS = Inr DEFAULT_WORKERS
   \<and> getItem sampleStorage LS_supervisor = Inl SecurityError
   \<and> loadLS sampleStorage LS_supervisor DEFAULT_WORKERS = Inr DEFAULT_WORKERS"
proof -
  have g1: "getItem sampleStorage LS_workers = Inr (Some ''[{oops'')"
    by (simp add: sampleStorage_def)
  have p1: "jsonParse sampleStorage ''[{oops'' = Inl SyntaxError"
    by (simp add: sampleStorage_def)
  have g2: "getItem sampleStorage LS_attendance = Inr None"
    by (simp add: sampleStorage_def LS_attendance_def LS_workers_def LS_supervisor_def)
  have g3: "getItem sampleStorage LS_supervisor = Inl SecurityError"
    by (simp add: sampleStorage_def LS_workers_def LS_supervisor_def)
  from loadLS_never_raises [of sampleStorage LS_workers DEFAULT_WORKERS]
       loadLS_never_raises [of sampleStorage LS_attendance DEFAULT_WORKERS]
       loadLS_never_raises [of sampleStorage LS_supervisor DEFAULT_WORKERS]
       g1 p1 g2 g3
  show ?thesis by blast
qed

text \<open>
  C10. For every session state and status, \<^verbatim>\<open>handleBulk\<close> keeps, for the selected date,
  the entry of every worker id that is not in the roster: after the bulk mark that id reads
  as it did before, so the date's object is extended and not replaced.
\<close>

theorem handleBulk_keeps_non_roster_entries:
  assumes "k \<notin> w_id ` set (workers st)"
  shows "todayRecords (attendance (handleBulk status st)) (date st) k
           = todayRecords (attendance st) (date st) k
       \<and> getProp (todayRecords (attendance (handleBulk status st)) (date st)) k
           = getProp (todayRecords (attendance st) (date st)) k"
proof -
  have "todayRecords (attendance (handleBulk status st)) (date st) k
          = forEachAssign (workers st) status (todayRecords (attendance st) (date st)) k"
    by (simp add: handleBulk_def handleBulk_update_def Let_def todayRecords_def orEmpty_def)
  also have "\<dots> = todayRecords (attendance st) (date st) k"
    using assms by (rule forEachAssign_other)
  finally show ?thesis by (simp add: getProp_def)
qed

theorem handleBulk_keeps_non_roster_entries_witness:
  "''X-9'' \<notin> w_id ` set (workers (sampleState\<lparr>date := ''2026-10-01''\<rparr>))
   \<and> todayRecords (attendance (handleBulk ''P'' (sampleState\<lparr>date := ''2026-10-01''\<rparr>)))
        ''2026-10-01'' ''X-9'' = Some ''A''"
proof -
  let ?st = "sampleState\<lparr>date := ''2026-10-01''\<rparr>"
  have k: "''X-9'' \<notin> w_id ` set (workers ?st)"
    by (simp add: sampleState_def DEFAULT_WORKERS_def)
  have old: "todayRecords (attendance ?st) (date ?st) ''X-9'' = Some ''A''"
    by (simp add: sampleState_def sampleAttendance_def todayRecords_def orEmpty_def)
  have dt: "date ?st = ''2026-10-01''"
    by simp
  from handleBulk_keeps_non_roster_entries [OF k, of "''P''"] old dt k
  show ?thesis by simp
qed

end
